theory Spec2Isabelle
  imports Main
begin

section \<open>The document tree handed to the filters\<close>

text \<open>
  The filters of \<^verbatim>\<open>md/pandoc.py\<close> receive nodes of the host library's document tree.
  Only the node classes the filters test for or build are kept apart; every other class of
  node is \<open>Other_elem\<close> with its tag and children.  The three fields every attributed
  node carries (\<^verbatim>\<open>identifier\<close> as \<open>ident\<close>, \<^verbatim>\<open>classes\<close>, \<^verbatim>\<open>attributes\<close>) form the record \<open>attr\<close>; the
  \<^verbatim>\<open>attributes\<close> dictionary is a map from keys to values.
\<close>

record attr =
  ident :: string
  classes :: "string list"
  attributes :: "string \<rightharpoonup> string"

text \<open>The node a constructor of the host library builds when no attribute is passed.\<close>

definition no_attr :: attr where
  "no_attr = \<lparr>ident = [], classes = [], attributes = Map.empty\<rparr>"

datatype element =
    is_Header: Header "element list" int attr
  | is_Div: Div "element list" attr
  | is_CodeBlock: CodeBlock string attr
  | is_Code: Code string attr
  | Para "element list"
  | BlockQuote "element list"
  | Image_elem "element list" string string attr
  | Str string
  | RawInline string string
  | Other_elem string "element list"

text \<open>
  Argument order: \<open>Header content level attr\<close>, \<open>Div content attr\<close>, \<open>CodeBlock text attr\<close>,
  \<open>Code text attr\<close>, \<open>Image_elem content url title attr\<close>, \<open>RawInline text format\<close>.
\<close>

record doc =
  format :: string

section \<open>The filters that only look at the node\<close>

text \<open>
  A filter returns \<open>None\<close> (the host keeps the node) or \<open>Some\<close> replacement node.
  \<^verbatim>\<open>h1hr\<close> stores into \<^verbatim>\<open>elem.attributes\<close> and returns the node itself.
\<close>

definition h1hr :: "element \<Rightarrow> doc \<Rightarrow> element option" where
  "h1hr elem d =
     (case elem of
        Header content level a \<Rightarrow>
          if level \<noteq> 1 then None
          else Some (Header content level
                 (a\<lparr>attributes := (attributes a)(''style'' \<mapsto> ''border-bottom:1px solid #cccccc'')\<rparr>))
      | _ \<Rightarrow> None)"

text \<open>
  \<^verbatim>\<open>bq\<close> has no \<^verbatim>\<open>return\<close> after its last \<^verbatim>\<open>if\<close>: falling off the end yields \<open>None\<close>.
  The new \<^verbatim>\<open>Div\<close> is built with \<^verbatim>\<open>classes=\<close> only, so its identifier and attributes are
  the constructor's defaults.
\<close>

definition bq :: "element \<Rightarrow> doc \<Rightarrow> element option" where
  "bq elem d =
     (case elem of
        Div content a \<Rightarrow>
          if classes a = [''bq''] then Some (BlockQuote content)
          else if ''std'' \<in> set (classes a)
          then Some (Div [BlockQuote content] (no_attr\<lparr>classes := classes a\<rparr>))
          else None
      | _ \<Rightarrow> None)"

text \<open>The format of a \<^verbatim>\<open>RawInline\<close> built from its text alone is \<^verbatim>\<open>html\<close>.\<close>

definition op :: "element \<Rightarrow> doc \<Rightarrow> element option" where
  "op elem d =
     (case elem of
        Code txt a \<Rightarrow>
          if ''op'' \<in> set (classes a)
          then Some (RawInline
                 (''<code><span class='' @ [CHR 0x22] @ ''op'' @ [CHR 0x22] @ ''>'' @ txt @ ''</span></code>'')
                 ''html'')
          else None
      | _ \<Rightarrow> None)"

section \<open>The world outside the process\<close>

text \<open>
  \<^verbatim>\<open>mermaid\<close> reads and writes the file system, writes to the error stream and starts a
  child process.  The state is passed explicitly; an exception is a value, and the world is
  returned with it, since what was written before a \<^verbatim>\<open>raise\<close> stays written.
\<close>

datatype os_error =
  FileExistsError | FileNotFoundError | PermissionError | IsADirectoryError | NotADirectoryError

datatype exn =
  OSError os_error | CalledProcessError int | NameError string | UnicodeEncodeError

text \<open>\<^verbatim>\<open>except OSError\<close> catches \<^verbatim>\<open>OSError\<close> and each of its subclasses, and nothing else.\<close>

fun is_OSError :: "exn \<Rightarrow> bool" where
  "is_OSError (OSError k) = True"
| "is_OSError (CalledProcessError rc) = False"
| "is_OSError (NameError n) = False"
| "is_OSError UnicodeEncodeError = False"

text \<open>
  The file system is \<open>files\<close> (regular files and their contents) and \<open>dirs\<close>; \<open>stderr\<close>
  and \<open>spawned\<close> (the argument vector of every child process started) are only written.
\<close>

record world =
  files :: "string \<rightharpoonup> string"
  dirs :: "string set"
  stderr :: "string list"
  spawned :: "string list list"

type_synonym fsys = "(string \<rightharpoonup> string) \<times> string set"

definition filesystem :: "world \<Rightarrow> fsys" where
  "filesystem w = (files w, dirs w)"

text \<open>
  A program on the search path maps its argument vector and the regular files to an exit
  status and the files it leaves.  Its output streams go to \<^verbatim>\<open>DEVNULL\<close>.
\<close>

type_synonym program = "string list \<Rightarrow> (string \<rightharpoonup> string) \<Rightarrow> int \<times> (string \<rightharpoonup> string)"

text \<open>
  What the module does not define is a parameter:
  \<^item> \<open>MD_DIR\<close>, the directory of the script (a module constant);
  \<^item> \<open>encode\<close>, the bytes of a text in the file-system encoding, \<open>None\<close> where the
    encoding cannot hold the text (\<^verbatim>\<open>str.encode\<close> raises \<^verbatim>\<open>UnicodeEncodeError\<close>);
  \<^item> \<open>hexdigest\<close>, the hexadecimal SHA-1 digest of bytes (\<^verbatim>\<open>hashlib\<close>);
  \<^item> \<open>mkdir_refused\<close> and \<open>open_refused\<close>, the error with which the operating system
    refuses to create a directory or to open a file for writing, given the file system;
  \<^item> \<open>write_refused\<close>, the exception that writing a text to the opened file raises (the
    text does not fit the file's encoding, the device is full);
  \<^item> \<open>programs\<close>, the programs installed.
\<close>

record env =
  MD_DIR :: string
  encode :: "string \<Rightarrow> string option"
  hexdigest :: "string \<Rightarrow> string"
  mkdir_refused :: "string \<Rightarrow> fsys \<Rightarrow> os_error option"
  open_refused :: "string \<Rightarrow> fsys \<Rightarrow> os_error option"
  write_refused :: "string \<Rightarrow> string \<Rightarrow> fsys \<Rightarrow> exn option"
  programs :: "string \<rightharpoonup> program"

definition os_path_isfile :: "string \<Rightarrow> world \<Rightarrow> bool" where
  "os_path_isfile p w = (files w p \<noteq> None)"

definition os_mkdir :: "env \<Rightarrow> string \<Rightarrow> world \<Rightarrow> exn option \<times> world" where
  "os_mkdir env p w =
     (case mkdir_refused env p (filesystem w) of
        Some k \<Rightarrow> (Some (OSError k), w)
      | None \<Rightarrow> (None, w\<lparr>dirs := insert p (dirs w)\<rparr>))"

definition sys_stderr_write :: "string \<Rightarrow> world \<Rightarrow> world" where
  "sys_stderr_write s w = w\<lparr>stderr := stderr w @ [s]\<rparr>"

text \<open>
  \<^verbatim>\<open>with open(p, 'w') as f: f.write(s)\<close>.  A refused \<^verbatim>\<open>open\<close> leaves the file system as it
  was; \<^verbatim>\<open>open\<close> creates or empties the file, so a write that raises leaves it empty.
\<close>

definition open_write :: "env \<Rightarrow> string \<Rightarrow> string \<Rightarrow> world \<Rightarrow> exn option \<times> world" where
  "open_write env p s w =
     (case open_refused env p (filesystem w) of
        Some k \<Rightarrow> (Some (OSError k), w)
      | None \<Rightarrow>
          (case write_refused env p s (filesystem w) of
             Some e \<Rightarrow> (Some e, w\<lparr>files := (files w)(p \<mapsto> [])\<rparr>)
           | None \<Rightarrow> (None, w\<lparr>files := (files w)(p \<mapsto> s)\<rparr>)))"

text \<open>
  \<^verbatim>\<open>subprocess.check_call\<close>: a program that is not found raises \<^verbatim>\<open>FileNotFoundError\<close>, an exit
  status other than 0 raises \<^verbatim>\<open>CalledProcessError\<close>.  Every call is recorded in \<open>spawned\<close>.
\<close>

definition check_call :: "env \<Rightarrow> string \<Rightarrow> string list \<Rightarrow> world \<Rightarrow> exn option \<times> world" where
  "check_call env prog args w =
     (let w1 = w\<lparr>spawned := spawned w @ [prog # args]\<rparr> in
      case programs env prog of
        None \<Rightarrow> (Some (OSError FileNotFoundError), w1)
      | Some run \<Rightarrow>
          (case run (prog # args) (files w1) of
             (rc, fs) \<Rightarrow>
               (if rc \<noteq> 0 then Some (CalledProcessError rc) else None, w1\<lparr>files := fs\<rparr>)))"

section \<open>The filters that reach outside\<close>

text \<open>
  \<^verbatim>\<open>hashlib.sha1(x.encode(sys.getfilesystemencoding())).hexdigest()\<close>: the encoding step
  raises for a text the file-system encoding cannot hold.
\<close>

definition sha1 :: "env \<Rightarrow> string \<Rightarrow> exn + string" where
  "sha1 env x =
     (case encode env x of
        None \<Rightarrow> Inl UnicodeEncodeError
      | Some bytes \<Rightarrow> Inr (hexdigest env bytes))"


definition mermaid :: "env \<Rightarrow> element \<Rightarrow> doc \<Rightarrow> world \<Rightarrow> (exn + element option) \<times> world" where
  "mermaid env elem d w =
     (case elem of
        CodeBlock txt a \<Rightarrow>
          if ''mermaid'' \<in> set (classes a) then
            let code = txt;
                caption = (case attributes a ''caption'' of None \<Rightarrow> [] | Some v \<Rightarrow> v)
            in
              (case sha1 env code of
                 Inl e \<Rightarrow> (Inl e, w)
               | Inr filename \<Rightarrow>
                   let mermaid_dir = MD_DIR env @ ''/mermaid-images'';
                       src_file = mermaid_dir @ ''/'' @ filename @ ''.mmd'';
                       dst_img = mermaid_dir @ ''/'' @ filename @ ''.svg'';
                       node = Some (Para [Image_elem [Str caption] dst_img caption no_attr])
                   in
                     if \<not> os_path_isfile src_file w then
                       (case (case os_mkdir env mermaid_dir w of
                                (None, w1) \<Rightarrow>
                                  (None, sys_stderr_write (''Created directory '' @ mermaid_dir @ [CHR 0x0A]) w1)
                              | (Some e, w1) \<Rightarrow> if is_OSError e then (None, w1) else (Some e, w1)) of
                          (Some e, w2) \<Rightarrow> (Inl e, w2)
                        | (None, w2) \<Rightarrow>
                            (case open_write env src_file code w2 of
                               (Some e, w3) \<Rightarrow> (Inl e, w3)
                             | (None, w3) \<Rightarrow>
                                 (case check_call env ''mmdc'' [''-i'', src_file, ''-o'', dst_img] w3 of
                                    (Some e, w4) \<Rightarrow> (Inl e, w4)
                                  | (None, w4) \<Rightarrow> (Inr node, w4))))
                     else (Inr node, w))
          else (Inr None, w)
      | _ \<Rightarrow> (Inr None, w))"

section \<open>Registration with the host\<close>









section \<open>Concrete surroundings for the examples\<close>

text \<open>
  A file system without permissions: \<^verbatim>\<open>mkdir\<close> is refused when the path exists or its
  parent directory does not, \<^verbatim>\<open>open\<close> for writing when the path is a directory or its parent
  directory does not exist; a write is never refused.  The file-system encoding is ASCII.
  The digest table holds the SHA-1 digests of the one snippet the examples use and of the
  empty text.
\<close>

definition parent :: "string \<Rightarrow> string" where
  "parent p = rev (tl (dropWhile (\<lambda>c. c \<noteq> CHR ''/'') (rev p)))"

definition plain_mkdir :: "string \<Rightarrow> fsys \<Rightarrow> os_error option" where
  "plain_mkdir p fs =
     (if p \<in> snd fs \<or> fst fs p \<noteq> None then Some FileExistsError
      else if parent p \<notin> snd fs then Some FileNotFoundError
      else None)"

definition plain_open :: "string \<Rightarrow> fsys \<Rightarrow> os_error option" where
  "plain_open p fs =
     (if p \<in> snd fs then Some IsADirectoryError
      else if parent p \<notin> snd fs then Some FileNotFoundError
      else None)"

definition ascii_encode :: "string \<Rightarrow> string option" where
  "ascii_encode x = (if list_all (\<lambda>c. (of_char c :: nat) < 128) x then Some x else None)"

definition digest_table :: "string \<Rightarrow> string" where
  "digest_table x =
     (if x = ''graph TD; A-->B'' then ''90bf051b9b3df160543336b9e851e6fa32b03403''
      else ''da39a3ee5e6b4b0d3255bfef95601890afd80709'')"

text \<open>A renderer that writes its output file, and one that exits with status 1.\<close>

definition mmdc_ok :: program where
  "mmdc_ok argv fs = (0, fs(argv ! 4 \<mapsto> ''<svg/>''))"

definition mmdc_failing :: program where
  "mmdc_failing argv fs = (1, fs)"

definition env_with :: "(string \<rightharpoonup> program) \<Rightarrow> env" where
  "env_with progs =
     \<lparr>MD_DIR = ''/md'', encode = ascii_encode, hexdigest = digest_table,
      mkdir_refused = plain_mkdir, open_refused = plain_open,
      write_refused = (\<lambda>p s fs. None), programs = progs\<rparr>"

definition fresh :: world where
  "fresh = \<lparr>files = Map.empty, dirs = {''/md''}, stderr = [], spawned = []\<rparr>"

definition diagram :: element where
  "diagram = CodeBlock ''graph TD; A-->B''
     \<lparr>ident = [], classes = [''mermaid''], attributes = [''caption'' \<mapsto> ''Flow'']\<rparr>"

definition html :: doc where
  "html = \<lparr>format = ''html''\<rparr>"

text \<open>
  States of the cache directory: the snippet file without its image (what a run leaves
  whose renderer failed), the image without the snippet file, the empty directory, and both
  files (what a successful run leaves).
\<close>

definition stale :: world where
  "stale =
     \<lparr>files = [''/md/mermaid-images/90bf051b9b3df160543336b9e851e6fa32b03403.mmd'' \<mapsto> ''graph TD; A-->B''],
      dirs = {''/md/mermaid-images'', ''/md''}, stderr = [], spawned = []\<rparr>"

definition rendered_only :: world where
  "rendered_only =
     \<lparr>files = [''/md/mermaid-images/90bf051b9b3df160543336b9e851e6fa32b03403.svg'' \<mapsto> ''<svg/>''],
      dirs = {''/md/mermaid-images'', ''/md''}, stderr = [], spawned = []\<rparr>"

definition cache_dir_only :: world where
  "cache_dir_only =
     \<lparr>files = Map.empty, dirs = {''/md/mermaid-images'', ''/md''}, stderr = [], spawned = []\<rparr>"



section \<open>Unfolding rules and auxiliary facts about \<open>mermaid\<close>\<close>

lemmas surroundings = env_with_def diagram_def html_def fresh_def digest_table_def
  plain_mkdir_def plain_open_def parent_def mmdc_ok_def mmdc_failing_def ascii_encode_def
  filesystem_def

lemmas mermaid_unfold = mermaid_def Let_def os_path_isfile_def os_mkdir_def open_write_def
  check_call_def sys_stderr_write_def sha1_def no_attr_def


text \<open>A text the file-system encoding cannot hold: the digest raises before anything is touched.\<close>

lemma mermaid_unencodable:
  assumes "''mermaid'' \<in> set (classes a)" and "sha1 env txt = Inl e"
  shows "mermaid env (CodeBlock txt a) d w = (Inl e, w)"
  using assms by (simp add: mermaid_def)

text \<open>With the snippet file in place nothing is done and the image node is returned.\<close>

lemma mermaid_cached:
  assumes "''mermaid'' \<in> set (classes a)" and "sha1 env txt = Inr h"
    and "os_path_isfile (MD_DIR env @ ''/mermaid-images/'' @ h @ ''.mmd'') w"
  shows "mermaid env (CodeBlock txt a) d w =
     (Inr (Some (Para [Image_elem [Str (case attributes a ''caption'' of None \<Rightarrow> [] | Some v \<Rightarrow> v)]
        (MD_DIR env @ ''/mermaid-images/'' @ h @ ''.svg'')
        (case attributes a ''caption'' of None \<Rightarrow> [] | Some v \<Rightarrow> v) no_attr])), w)"
  using assms by (simp add: mermaid_def Let_def)

text \<open>The \<^verbatim>\<open>try\<close> block never raises: it ends in the world a refused \<^verbatim>\<open>mkdir\<close> left untouched, or in the one with the new directory and the message.\<close>

lemma mermaid_try_block:
  "(case (case os_mkdir env dir w of
            (None, w1) \<Rightarrow> (None, sys_stderr_write msg w1)
          | (Some e, w1) \<Rightarrow> if is_OSError e then (None, w1) else (Some e, w1)) of
      (Some e, w2) \<Rightarrow> A e w2
    | (None, w2) \<Rightarrow> B w2) =
   B (case mkdir_refused env dir (filesystem w) of
        Some k \<Rightarrow> w
      | None \<Rightarrow> w\<lparr>dirs := insert dir (dirs w), stderr := stderr w @ [msg]\<rparr>)"
  by (simp add: os_mkdir_def sys_stderr_write_def split: option.splits)

text \<open>Without the snippet file the outcome is that of writing the snippet and calling the renderer, started in the world \<open>w2\<close> the \<^verbatim>\<open>try\<close> block leaves.\<close>

lemma mermaid_regenerating:
  assumes "''mermaid'' \<in> set (classes a)" and "sha1 env txt = Inr h"
    and "\<not> os_path_isfile (MD_DIR env @ ''/mermaid-images/'' @ h @ ''.mmd'') w"
    and "w2 = (case mkdir_refused env (MD_DIR env @ ''/mermaid-images'') (filesystem w) of
                 Some k \<Rightarrow> w
               | None \<Rightarrow> w\<lparr>dirs := insert (MD_DIR env @ ''/mermaid-images'') (dirs w),
                            stderr := stderr w @ [''Created directory '' @ MD_DIR env @ ''/mermaid-images'' @ [CHR 0x0A]]\<rparr>)"
  shows "mermaid env (CodeBlock txt a) d w =
     (case open_write env (MD_DIR env @ ''/mermaid-images/'' @ h @ ''.mmd'') txt w2 of
        (Some e, w3) \<Rightarrow> (Inl e, w3)
      | (None, w3) \<Rightarrow>
          (case check_call env ''mmdc''
                  [''-i'', MD_DIR env @ ''/mermaid-images/'' @ h @ ''.mmd'',
                   ''-o'', MD_DIR env @ ''/mermaid-images/'' @ h @ ''.svg''] w3 of
             (Some e, w4) \<Rightarrow> (Inl e, w4)
           | (None, w4) \<Rightarrow>
               (Inr (Some (Para [Image_elem [Str (case attributes a ''caption'' of None \<Rightarrow> [] | Some v \<Rightarrow> v)]
                  (MD_DIR env @ ''/mermaid-images/'' @ h @ ''.svg'')
                  (case attributes a ''caption'' of None \<Rightarrow> [] | Some v \<Rightarrow> v) no_attr])), w4)))"
  using assms(1,2,3) unfolding assms(4)
  by (simp add: mermaid_def Let_def mermaid_try_block cong: prod.case_cong option.case_cong)

text \<open>The outcome of \<^verbatim>\<open>mermaid\<close> on a mermaid code block whose text has digest \<open>h\<close>.\<close>

lemma mermaid_outcome:
  assumes "''mermaid'' \<in> set (classes a)" and "sha1 env txt = Inr h"
    and "caption = (case attributes a ''caption'' of None \<Rightarrow> [] | Some v \<Rightarrow> v)"
    and "dir = MD_DIR env @ ''/mermaid-images''"
    and "src = dir @ ''/'' @ h @ ''.mmd''"
    and "dst = dir @ ''/'' @ h @ ''.svg''"
    and "node = Some (Para [Image_elem [Str caption] dst caption no_attr])"
    and "w2 = (case mkdir_refused env dir (filesystem w) of
                 Some k \<Rightarrow> w
               | None \<Rightarrow> w\<lparr>dirs := insert dir (dirs w),
                            stderr := stderr w @ [''Created directory '' @ dir @ [CHR 0x0A]]\<rparr>)"
  shows "fst (mermaid env (CodeBlock txt a) d w) =
     (if os_path_isfile src w then Inr node
      else case open_refused env src (filesystem w2) of
             Some k \<Rightarrow> Inl (OSError k)
           | None \<Rightarrow>
               (case write_refused env src txt (filesystem w2) of
                  Some e \<Rightarrow> Inl e
                | None \<Rightarrow>
                    (case programs env ''mmdc'' of
                       None \<Rightarrow> Inl (OSError FileNotFoundError)
                     | Some run \<Rightarrow>
                         (let rc = fst (run [''mmdc'', ''-i'', src, ''-o'', dst] ((files w2)(src \<mapsto> txt)))
                          in if rc \<noteq> 0 then Inl (CalledProcessError rc) else Inr node))))"
proof (cases "os_path_isfile src w")
  case True
  then show ?thesis
    using mermaid_cached [OF assms(1,2), of w d] assms(3-7) by simp
next
  case False
  then have "mermaid env (CodeBlock txt a) d w =
     (case open_write env src txt w2 of
        (Some e, w3) \<Rightarrow> (Inl e, w3)
      | (None, w3) \<Rightarrow>
          (case check_call env ''mmdc'' [''-i'', src, ''-o'', dst] w3 of
             (Some e, w4) \<Rightarrow> (Inl e, w4)
           | (None, w4) \<Rightarrow> (Inr node, w4)))"
    using mermaid_regenerating [OF assms(1,2), of w w2 d] assms(3-8)
    by (simp cong: prod.case_cong option.case_cong)
  with False show ?thesis
    by (simp add: open_write_def check_call_def Let_def filesystem_def
        split: option.splits prod.splits)
qed

section \<open>The mermaid cache\<close>

text \<open>
  C1. The claim: for a code block of class \<open>mermaid\<close>, regeneration (writing the snippet,
  calling the renderer) is skipped if and only if an output file for the snippet exists.
  The function tests for the snippet file \<^verbatim>\<open>.mmd\<close> it writes itself, not for the image
  \<^verbatim>\<open>.svg\<close> the renderer writes.  Evaluated: a first run without a renderer raises and leaves the
  files of \<open>stale\<close>; in \<open>stale\<close> there is no image, yet a run with a working renderer changes
  nothing and returns the node that points to the missing image; in \<open>rendered_only\<close> the
  image exists, yet the renderer is called.
\<close>

theorem mermaid_skips_without_output_file:
  "files (snd (mermaid (env_with Map.empty) diagram html fresh)) = files stale
   \<and> \<not> os_path_isfile ''/md/mermaid-images/90bf051b9b3df160543336b9e851e6fa32b03403.svg'' stale
   \<and> mermaid (env_with [''mmdc'' \<mapsto> mmdc_ok]) diagram html stale =
       (Inr (Some (Para [Image_elem [Str ''Flow'']
          ''/md/mermaid-images/90bf051b9b3df160543336b9e851e6fa32b03403.svg'' ''Flow'' no_attr])), stale)
   \<and> os_path_isfile ''/md/mermaid-images/90bf051b9b3df160543336b9e851e6fa32b03403.svg'' rendered_only
   \<and> spawned (snd (mermaid (env_with [''mmdc'' \<mapsto> mmdc_ok]) diagram html rendered_only)) =
       [[''mmdc'', ''-i'', ''/md/mermaid-images/90bf051b9b3df160543336b9e851e6fa32b03403.mmd'',
         ''-o'', ''/md/mermaid-images/90bf051b9b3df160543336b9e851e6fa32b03403.svg'']]"
  by (simp add: surroundings mermaid_unfold stale_def rendered_only_def)

text \<open>
  The claim C2 as stated, that every code block of class \<open>mermaid\<close> makes the filter return
  a paragraph, fails where the renderer is not installed and the snippet file is not there
  yet: the filter raises \<^verbatim>\<open>FileNotFoundError\<close> and returns no node.
\<close>

theorem mermaid_returns_para_counterexample:
  "''mermaid'' \<in> set (classes \<lparr>ident = [], classes = [''mermaid''], attributes = [''caption'' \<mapsto> ''Flow'']\<rparr>)
   \<and> fst (mermaid (env_with Map.empty)
        (CodeBlock ''graph TD; A-->B''
           \<lparr>ident = [], classes = [''mermaid''], attributes = [''caption'' \<mapsto> ''Flow'']\<rparr>)
        html fresh) = Inl (OSError FileNotFoundError)"
  by (simp add: surroundings mermaid_unfold)

text \<open>
  C2, amended. For a code block of class \<open>mermaid\<close>: when the text cannot be encoded for the
  digest, the filter raises that error.  Otherwise, with \<open>h\<close> the SHA-1 digest of the text,
  the outcome is either an exception or the paragraph holding exactly one image whose url is
  \<open>MD_DIR/mermaid-images/h.svg\<close> and whose title and alternative text are the block's
  \<open>caption\<close> attribute (empty when absent); it is that paragraph exactly when the snippet
  file \<open>h.mmd\<close> is there already, or the snippet file can be opened and written and the
  renderer is found and exits with status 0; with the snippet file there, the world is left
  as it was.  The url depends on the block through the digest of its text only: whatever the
  attributes of another block with the same text, and in whatever world, a node it yields
  carries the same url.
\<close>

theorem mermaid_result:
  assumes "''mermaid'' \<in> set (classes a)"
    and "caption = (case attributes a ''caption'' of None \<Rightarrow> [] | Some v \<Rightarrow> v)"
    and "dir = MD_DIR env @ ''/mermaid-images''"
    and "w2 = (case mkdir_refused env dir (filesystem w) of
                 Some k \<Rightarrow> w
               | None \<Rightarrow> w\<lparr>dirs := insert dir (dirs w),
                            stderr := stderr w @ [''Created directory '' @ dir @ [CHR 0x0A]]\<rparr>)"
    and "out = fst (mermaid env (CodeBlock body a) d w)"
  shows "(\<forall>e. sha1 env body = Inl e \<longrightarrow> out = Inl e)
     \<and> (\<forall>h. sha1 env body = Inr h \<longrightarrow>
          (let src = dir @ ''/'' @ h @ ''.mmd'';
               dst = dir @ ''/'' @ h @ ''.svg'';
               node = Some (Para [Image_elem [Str caption] dst caption no_attr])
           in (out = Inr node \<or> (\<exists>e. out = Inl e))
            \<and> (out = Inr node \<longleftrightarrow>
                  os_path_isfile src w
                \<or> (open_refused env src (filesystem w2) = None
                    \<and> write_refused env src body (filesystem w2) = None
                    \<and> (\<exists>run. programs env ''mmdc'' = Some run
                          \<and> fst (run [''mmdc'', ''-i'', src, ''-o'', dst] ((files w2)(src \<mapsto> body))) = 0)))
            \<and> (os_path_isfile src w \<longrightarrow> snd (mermaid env (CodeBlock body a) d w) = w)
            \<and> (\<forall>b w' n. ''mermaid'' \<in> set (classes b) \<longrightarrow>
                  fst (mermaid env (CodeBlock body b) d w') = Inr n \<longrightarrow>
                  (\<exists>alt title. n = Some (Para [Image_elem alt dst title no_attr])))))"
proof (intro conjI allI impI)
  fix e assume "sha1 env body = Inl e"
  then show "out = Inl e"
    using mermaid_unencodable [OF assms(1), of env body e d w] assms(5) by simp
next
  fix h assume h: "sha1 env body = Inr h"
  define src where "src = dir @ ''/'' @ h @ ''.mmd''"
  define dst where "dst = dir @ ''/'' @ h @ ''.svg''"
  define node where "node = Some (Para [Image_elem [Str caption] dst caption no_attr])"
  note o = mermaid_outcome [OF assms(1) h assms(2,3) src_def dst_def node_def assms(4), of d,
      folded assms(5)]
  have 1: "out = Inr node \<or> (\<exists>e. out = Inl e)"
    unfolding o by (simp add: Let_def split: option.splits)
  have 2: "out = Inr node \<longleftrightarrow>
        os_path_isfile src w
      \<or> (open_refused env src (filesystem w2) = None
          \<and> write_refused env src body (filesystem w2) = None
          \<and> (\<exists>run. programs env ''mmdc'' = Some run
                \<and> fst (run [''mmdc'', ''-i'', src, ''-o'', dst] ((files w2)(src \<mapsto> body))) = 0))"
    unfolding o by (auto simp add: Let_def split: option.splits)
  have 3: "os_path_isfile src w \<longrightarrow> snd (mermaid env (CodeBlock body a) d w) = w"
    using mermaid_cached [OF assms(1) h, of w d] by (simp add: src_def assms(3))
  have 4: "\<forall>b w' n. ''mermaid'' \<in> set (classes b) \<longrightarrow>
        fst (mermaid env (CodeBlock body b) d w') = Inr n \<longrightarrow>
        (\<exists>alt title. n = Some (Para [Image_elem alt dst title no_attr]))"
  proof (intro allI impI)
    fix b :: attr and w' :: world and n
    assume b: "''mermaid'' \<in> set (classes b)"
      and n: "fst (mermaid env (CodeBlock body b) d w') = Inr n"
    from mermaid_outcome [OF b h refl assms(3) src_def dst_def refl refl, of d w'] n
    show "\<exists>alt title. n = Some (Para [Image_elem alt dst title no_attr])"
      by (auto simp add: Let_def split: option.splits if_splits)
  qed
  from 1 2 3 4
  show "let src = dir @ ''/'' @ h @ ''.mmd'';
            dst = dir @ ''/'' @ h @ ''.svg'';
            node = Some (Para [Image_elem [Str caption] dst caption no_attr])
        in (out = Inr node \<or> (\<exists>e. out = Inl e))
         \<and> (out = Inr node \<longleftrightarrow>
               os_path_isfile src w
             \<or> (open_refused env src (filesystem w2) = None
                 \<and> write_refused env src body (filesystem w2) = None
                 \<and> (\<exists>run. programs env ''mmdc'' = Some run
                       \<and> fst (run [''mmdc'', ''-i'', src, ''-o'', dst] ((files w2)(src \<mapsto> body))) = 0)))
         \<and> (os_path_isfile src w \<longrightarrow> snd (mermaid env (CodeBlock body a) d w) = w)
         \<and> (\<forall>b w' n. ''mermaid'' \<in> set (classes b) \<longrightarrow>
               fst (mermaid env (CodeBlock body b) d w') = Inr n \<longrightarrow>
               (\<exists>alt title. n = Some (Para [Image_elem alt dst title no_attr])))"
    unfolding Let_def src_def [symmetric] dst_def [symmetric] node_def [symmetric]
    by blast
qed

theorem mermaid_result_witness:
  "''mermaid'' \<in> set (classes \<lparr>ident = [], classes = [''mermaid''], attributes = [''caption'' \<mapsto> ''Flow'']\<rparr>)
   \<and> sha1 (env_with [''mmdc'' \<mapsto> mmdc_ok]) ''graph TD; A-->B'' = Inr ''90bf051b9b3df160543336b9e851e6fa32b03403''
   \<and> \<not> os_path_isfile ''/md/mermaid-images/90bf051b9b3df160543336b9e851e6fa32b03403.mmd'' fresh
   \<and> fst (mermaid (env_with [''mmdc'' \<mapsto> mmdc_ok])
        (CodeBlock ''graph TD; A-->B''
           \<lparr>ident = [], classes = [''mermaid''], attributes = [''caption'' \<mapsto> ''Flow'']\<rparr>) html fresh) =
       Inr (Some (Para [Image_elem [Str ''Flow'']
          ''/md/mermaid-images/90bf051b9b3df160543336b9e851e6fa32b03403.svg'' ''Flow'' no_attr]))
   \<and> os_path_isfile ''/md/mermaid-images/90bf051b9b3df160543336b9e851e6fa32b03403.mmd'' stale
   \<and> snd (mermaid (env_with [''mmdc'' \<mapsto> mmdc_ok])
        (CodeBlock ''graph TD; A-->B''
           \<lparr>ident = [], classes = [''mermaid''], attributes = [''caption'' \<mapsto> ''Flow'']\<rparr>) html stale) = stale
   \<and> sha1 (env_with [''mmdc'' \<mapsto> mmdc_ok]) [CHR 0xE9] = Inl UnicodeEncodeError
   \<and> fst (mermaid (env_with [''mmdc'' \<mapsto> mmdc_ok])
        (CodeBlock [CHR 0xE9]
           \<lparr>ident = [], classes = [''mermaid''], attributes = [''caption'' \<mapsto> ''Flow'']\<rparr>) html fresh) =
       Inl UnicodeEncodeError"
proof -
  let ?a = "\<lparr>ident = [], classes = [''mermaid''], attributes = [''caption'' \<mapsto> ''Flow'']\<rparr>"
  let ?E = "env_with [''mmdc'' \<mapsto> mmdc_ok]"
  have c: "''mermaid'' \<in> set (classes ?a)" by simp
  have h: "sha1 ?E ''graph TD; A-->B'' = Inr ''90bf051b9b3df160543336b9e851e6fa32b03403''"
    by (simp add: sha1_def env_with_def ascii_encode_def digest_table_def)
  have u: "sha1 ?E [CHR 0xE9] = Inl UnicodeEncodeError"
    by (simp add: sha1_def env_with_def ascii_encode_def)
  note r = mermaid_result [where a = ?a and env = ?E and d = html, OF c refl refl refl refl]
  from r [where w = fresh and body = "''graph TD; A-->B''"]
    r [where w = stale and body = "''graph TD; A-->B''"]
    r [where w = fresh and body = "[CHR 0xE9]"] c h u
  show ?thesis
    by (simp add: Let_def surroundings os_path_isfile_def stale_def)
qed

text \<open>
  C7. When the snippet file is missing and the snippet can be written into the world \<open>w2\<close>
  that the \<^verbatim>\<open>try\<close> block leaves (the world as it was when \<^verbatim>\<open>mkdir\<close> was refused, with whatever
  \<^verbatim>\<open>OSError\<close>): a renderer that is not installed makes the filter raise
  \<^verbatim>\<open>FileNotFoundError\<close>, an exit status \<open>rc\<close> other than 0 makes it raise
  \<^verbatim>\<open>CalledProcessError rc\<close>, and only status 0 makes it return the image node; after a refused
  \<^verbatim>\<open>mkdir\<close> nothing is written to the error stream, no directory is added, and the renderer is
  called all the same.
\<close>

theorem mermaid_error_handling:
  assumes "''mermaid'' \<in> set (classes a)"
    and "caption = (case attributes a ''caption'' of None \<Rightarrow> [] | Some v \<Rightarrow> v)"
    and "sha1 env body = Inr h"
    and "dir = MD_DIR env @ ''/mermaid-images''"
    and "src = dir @ ''/'' @ h @ ''.mmd''"
    and "dst = dir @ ''/'' @ h @ ''.svg''"
    and "\<not> os_path_isfile src w"
    and "w2 = (case mkdir_refused env dir (filesystem w) of
                 Some k \<Rightarrow> w
               | None \<Rightarrow> w\<lparr>dirs := insert dir (dirs w),
                            stderr := stderr w @ [''Created directory '' @ dir @ [CHR 0x0A]]\<rparr>)"
    and "open_refused env src (filesystem w2) = None"
    and "write_refused env src body (filesystem w2) = None"
  shows "(programs env ''mmdc'' = None \<longrightarrow>
            fst (mermaid env (CodeBlock body a) d w) = Inl (OSError FileNotFoundError))
     \<and> (\<forall>run. programs env ''mmdc'' = Some run \<longrightarrow>
            fst (mermaid env (CodeBlock body a) d w) =
              (let rc = fst (run [''mmdc'', ''-i'', src, ''-o'', dst] ((files w2)(src \<mapsto> body)))
               in if rc \<noteq> 0 then Inl (CalledProcessError rc)
                  else Inr (Some (Para [Image_elem [Str caption] dst caption no_attr]))))
     \<and> (\<forall>k. mkdir_refused env dir (filesystem w) = Some k \<longrightarrow>
            stderr (snd (mermaid env (CodeBlock body a) d w)) = stderr w
          \<and> dirs (snd (mermaid env (CodeBlock body a) d w)) = dirs w
          \<and> spawned (snd (mermaid env (CodeBlock body a) d w)) =
              spawned w @ [[''mmdc'', ''-i'', src, ''-o'', dst]])"
proof -
  have r: "mermaid env (CodeBlock body a) d w =
     (case check_call env ''mmdc'' [''-i'', src, ''-o'', dst] (w2\<lparr>files := (files w2)(src \<mapsto> body)\<rparr>) of
        (Some e, w4) \<Rightarrow> (Inl e, w4)
      | (None, w4) \<Rightarrow> (Inr (Some (Para [Image_elem [Str caption] dst caption no_attr])), w4))"
    using mermaid_regenerating [OF assms(1,3), of w w2 d] assms(2,4-10)
    by (simp add: open_write_def cong: prod.case_cong option.case_cong)
  show ?thesis
    unfolding r
    by (auto simp add: check_call_def Let_def assms(8) split: option.splits prod.splits)
qed

theorem mermaid_error_handling_witness:
  "mkdir_refused (env_with Map.empty) ''/md/mermaid-images'' (filesystem cache_dir_only) = Some FileExistsError
   \<and> fst (mermaid (env_with Map.empty) diagram html cache_dir_only) = Inl (OSError FileNotFoundError)
   \<and> fst (mermaid (env_with [''mmdc'' \<mapsto> mmdc_failing]) diagram html cache_dir_only) =
       Inl (CalledProcessError 1)
   \<and> fst (mermaid (env_with [''mmdc'' \<mapsto> mmdc_ok]) diagram html cache_dir_only) =
       Inr (Some (Para [Image_elem [Str ''Flow'']
         ''/md/mermaid-images/90bf051b9b3df160543336b9e851e6fa32b03403.svg'' ''Flow'' no_attr]))
   \<and> stderr (snd (mermaid (env_with [''mmdc'' \<mapsto> mmdc_ok]) diagram html cache_dir_only)) = []"
proof -
  let ?a = "\<lparr>ident = [], classes = [''mermaid''], attributes = [''caption'' \<mapsto> ''Flow'']\<rparr>"
  have h: "sha1 (env_with progs) ''graph TD; A-->B'' = Inr ''90bf051b9b3df160543336b9e851e6fa32b03403''"
    for progs
    by (simp add: sha1_def env_with_def ascii_encode_def digest_table_def)
  note inst = mermaid_error_handling [where a = ?a and body = "''graph TD; A-->B''"
      and w = cache_dir_only and d = html, OF _ refl h refl refl refl _ refl]
  show ?thesis
    using inst [of Map.empty] inst [of "[''mmdc'' \<mapsto> mmdc_failing]"]
      inst [of "[''mmdc'' \<mapsto> mmdc_ok]"]
    by (simp add: surroundings cache_dir_only_def os_path_isfile_def)
qed

section \<open>Properties of the node-only filters\<close>

text \<open>
  C5. For a Header of level 1, \<open>h1hr\<close> returns that very node with the key \<open>style\<close> of its
  attributes set to \<open>border-bottom:1px solid #cccccc\<close> (content, level, identifier, classes
  and every other attribute as they were); for a Header of any other level, and for a node
  that is not a Header, it returns \<open>None\<close>.
\<close>

theorem h1hr_spec:
  "h1hr (Header content 1 a) d =
     Some (Header content 1
       (a\<lparr>attributes := (attributes a)(''style'' \<mapsto> ''border-bottom:1px solid #cccccc'')\<rparr>))
   \<and> (level \<noteq> 1 \<longrightarrow> h1hr (Header content level a) d = None)
   \<and> (\<not> is_Header elem \<longrightarrow> h1hr elem d = None)"
  by (cases elem) (simp_all add: h1hr_def)

theorem h1hr_spec_witness:
  "h1hr (Header [Str ''Title''] 1 \<lparr>ident = ''title'', classes = [''x''], attributes = [''k'' \<mapsto> ''v'']\<rparr>) \<lparr>format = ''html''\<rparr> =
     Some (Header [Str ''Title''] 1
       \<lparr>ident = ''title'', classes = [''x''],
        attributes = [''k'' \<mapsto> ''v'', ''style'' \<mapsto> ''border-bottom:1px solid #cccccc'']\<rparr>)
   \<and> (2::int) \<noteq> 1
   \<and> h1hr (Header [Str ''Title''] 2 \<lparr>ident = ''title'', classes = [''x''], attributes = [''k'' \<mapsto> ''v'']\<rparr>) \<lparr>format = ''html''\<rparr> = None
   \<and> \<not> is_Header (Para [Str ''Title''])
   \<and> h1hr (Para [Str ''Title'']) \<lparr>format = ''html''\<rparr> = None"
  using h1hr_spec [of "[Str ''Title'']"
      "\<lparr>ident = ''title'', classes = [''x''], attributes = [''k'' \<mapsto> ''v'']\<rparr>"
      "\<lparr>format = ''html''\<rparr>" 2 "Para [Str ''Title'']"]
  by simp


text \<open>
  C4. For a Div whose class list is exactly \<open>[bq]\<close>, \<open>bq\<close> returns a BlockQuote of the
  Div's content; for a Div with \<open>std\<close> among its classes, a Div holding one BlockQuote of
  the content and carrying the original class list; for every other node, \<open>None\<close>.
\<close>

theorem bq_spec:
  "(classes a = [''bq''] \<longrightarrow> bq (Div content a) d = Some (BlockQuote content))
   \<and> (''std'' \<in> set (classes a) \<longrightarrow>
        bq (Div content a) d = Some (Div [BlockQuote content] (no_attr\<lparr>classes := classes a\<rparr>)))
   \<and> ((\<forall>c b. elem = Div c b \<longrightarrow> classes b \<noteq> [''bq''] \<and> ''std'' \<notin> set (classes b)) \<longrightarrow>
        bq elem d = None)"
  by (cases elem) (auto simp add: bq_def)

theorem bq_spec_witness:
  "bq (Div [Para [Str ''x'']] \<lparr>ident = ''i'', classes = [''bq''], attributes = Map.empty\<rparr>) html
     = Some (BlockQuote [Para [Str ''x'']])
   \<and> bq (Div [Para [Str ''x'']] \<lparr>ident = ''i'', classes = [''note'', ''std''], attributes = Map.empty\<rparr>) html
     = Some (Div [BlockQuote [Para [Str ''x'']]] \<lparr>ident = [], classes = [''note'', ''std''], attributes = Map.empty\<rparr>)
   \<and> bq (Div [Para [Str ''x'']] \<lparr>ident = ''i'', classes = [''note''], attributes = Map.empty\<rparr>) html = None
   \<and> bq (Para [Str ''x'']) html = None"
  using bq_spec [of "\<lparr>ident = ''i'', classes = [''bq''], attributes = Map.empty\<rparr>" "[Para [Str ''x'']]" html]
    bq_spec [of "\<lparr>ident = ''i'', classes = [''note'', ''std''], attributes = Map.empty\<rparr>" "[Para [Str ''x'']]" html]
    bq_spec [of _ _ html "Div [Para [Str ''x'']] \<lparr>ident = ''i'', classes = [''note''], attributes = Map.empty\<rparr>"]
    bq_spec [of _ _ html "Para [Str ''x'']"]
  by (simp add: no_attr_def)

text \<open>
  C9. A Div whose classes contain \<open>bq\<close> but are not exactly \<open>[bq]\<close> (so \<open>bq\<close> together
  with any other class), and do not contain \<open>std\<close>, is left alone: \<open>bq\<close> returns \<open>None\<close>.
\<close>

theorem bq_needs_exact_class_list:
  "''bq'' \<in> set (classes a) \<Longrightarrow> classes a \<noteq> [''bq''] \<Longrightarrow> ''std'' \<notin> set (classes a)
     \<Longrightarrow> bq (Div content a) d = None"
  by (simp add: bq_def)

theorem bq_needs_exact_class_list_witness:
  "bq (Div [Para [Str ''x'']] \<lparr>ident = [], classes = [''bq'', ''wide''], attributes = Map.empty\<rparr>) html = None"
  using bq_needs_exact_class_list
    [of "\<lparr>ident = [], classes = [''bq'', ''wide''], attributes = Map.empty\<rparr>" "[Para [Str ''x'']]" html]
  by simp

text \<open>
  C10. For a Div with \<open>std\<close> among its classes, the Div that \<open>bq\<close> returns has the original
  class list, the empty identifier and no attributes, whatever the identifier and the
  attributes of the original Div were.
\<close>

theorem bq_std_drops_ident_and_attributes:
  "''std'' \<in> set (classes a) \<Longrightarrow>
     \<exists>a'. bq (Div content a) d = Some (Div [BlockQuote content] a')
        \<and> classes a' = classes a \<and> ident a' = [] \<and> attributes a' = Map.empty"
  by (auto simp add: bq_def no_attr_def)

theorem bq_std_drops_ident_and_attributes_witness:
  "\<exists>a'. bq (Div [Para [Str ''x'']]
            \<lparr>ident = ''sec'', classes = [''std'', ''ins''], attributes = [''data-x'' \<mapsto> ''1'']\<rparr>) html
          = Some (Div [BlockQuote [Para [Str ''x'']]] a')
        \<and> classes a' = [''std'', ''ins''] \<and> ident a' = [] \<and> attributes a' = Map.empty"
  using bq_std_drops_ident_and_attributes
    [of "\<lparr>ident = ''sec'', classes = [''std'', ''ins''], attributes = [''data-x'' \<mapsto> ''1'']\<rparr>"
        "[Para [Str ''x'']]" html]
  by simp

text \<open>
  C6. For an inline Code node with \<open>op\<close> among its classes, \<open>op\<close> returns a RawInline (of
  format html) whose text is \<^verbatim>\<open><code><span class="op">\<close>, the node's text as it is, and
  \<^verbatim>\<open></span></code>\<close>; for every other node it returns \<open>None\<close>.
\<close>

theorem op_spec:
  "(''op'' \<in> set (classes a) \<longrightarrow>
      op (Code txt a) d =
        Some (RawInline (''<code><span class='' @ [CHR 0x22] @ ''op'' @ [CHR 0x22] @ ''>'' @ txt @ ''</span></code>'') ''html''))
   \<and> ((\<forall>t b. elem = Code t b \<longrightarrow> ''op'' \<notin> set (classes b)) \<longrightarrow> op elem d = None)"
  by (cases elem) (auto simp add: op_def)

theorem op_spec_witness:
  "op (Code ''a<b&&c'' \<lparr>ident = [], classes = [''op''], attributes = Map.empty\<rparr>) html
     = Some (RawInline (''<code><span class='' @ [CHR 0x22] @ ''op'' @ [CHR 0x22] @ ''>a<b&&c</span></code>'') ''html'')
   \<and> op (Code ''a<b&&c'' \<lparr>ident = [], classes = [''cpp''], attributes = Map.empty\<rparr>) html = None
   \<and> op (Str ''a<b&&c'') html = None"
  using op_spec [of "\<lparr>ident = [], classes = [''op''], attributes = Map.empty\<rparr>" "''a<b&&c''" html]
    op_spec [of _ _ html "Code ''a<b&&c'' \<lparr>ident = [], classes = [''cpp''], attributes = Map.empty\<rparr>"]
    op_spec [of _ _ html "Str ''a<b&&c''"]
  by simp

section \<open>Registration: what the host's traversal applies\<close>














section \<open>What an invocation depends on\<close>










end
